theory Spec2Isabelle
  imports Complex_Main "HOL-Library.Char_ord" "HOL-Library.List_Lexorder"
begin

section \<open>Data model (storage/models.py)\<close>

text \<open>
  Python floats are modelled as real numbers and Python integers as \<open>int\<close>: rounding
  of binary floating point is outside the model. Columns to which the schema gives the
  default 0 (\<open>sales_volume\<close>, \<open>rating\<close>, \<open>reviews_count\<close>, \<open>popularity_score\<close>)
  hold a number; \<open>price\<close> has no default and may be NULL, and so may the text columns
  \<open>platform\<close> and \<open>category\<close>. Only the columns read by the ranking and trend code
  are kept.
\<close>

record product =
  platform :: "string option"
  product_id :: string
  price :: "real option"
  sales_volume :: int
  rating :: real
  reviews_count :: int
  category :: "string option"
  popularity_score :: real
  keyword_list :: "string list option"

record product_history =
  h_product_id :: string
  h_platform :: "string option"
  h_category :: "string option"
  h_date :: real
  h_price :: "real option"
  h_sales_volume :: int
  h_rating :: real
  h_reviews_count :: int

text \<open>
  \<open>Product.calculate_popularity_score\<close>: the score stored in the record and returned.
  Python's \<open>/\<close> on integers is true division.
\<close>

definition popularity_value :: "product \<Rightarrow> real" where
  "popularity_value p =
     (let sales_factor = min (real_of_int (sales_volume p) / 1000) 1 * 60;
          rating_factor = (rating p / 5) * 25;
          reviews_factor = min (real_of_int (reviews_count p) / 500) 1 * 15
      in sales_factor + rating_factor + reviews_factor)"

definition calculate_popularity_score :: "product \<Rightarrow> product \<times> real" where
  "calculate_popularity_score p =
     (p\<lparr>popularity_score := popularity_value p\<rparr>, popularity_value p)"

section \<open>The store and its failures (storage/database.py)\<close>

text \<open>
  The analytics code reaches the store through \<open>self.db.Session()\<close> and queries on
  that session. \<open>session_ok\<close> says whether \<open>Session()\<close> returns a session,
  \<open>products_ok\<close> and \<open>history_ok\<close> whether a query on the table \<open>products\<close>
  (\<open>product_history\<close>) executes; a query that does not execute raises.
  The rows are kept in storage order.
\<close>

datatype py_error = OperationalError | UnboundLocalError | TypeError | IndexError | ValueError

record db_manager =
  session_ok :: bool
  products_ok :: bool
  history_ok :: bool
  products :: "product list"
  history_rows :: "product_history list"

definition query_products :: "db_manager \<Rightarrow> py_error + product list" where
  "query_products db = (if products_ok db then Inr (products db) else Inl OperationalError)"

definition query_history :: "db_manager \<Rightarrow> py_error + product_history list" where
  "query_history db = (if history_ok db then Inr (history_rows db) else Inl OperationalError)"

text \<open>
  Every method with a session has the shape
  \<^verbatim>\<open>try: session = self.db.Session(); body  except Exception: return fallback  finally: session.close()\<close>.
  An exception of the body is replaced by the fallback. When \<open>Session()\<close> itself raises,
  the name \<open>session\<close> is unbound in the \<open>finally\<close> clause, whose
  UnboundLocalError replaces the pending return.
\<close>

definition with_session :: "db_manager \<Rightarrow> 'a \<Rightarrow> (py_error + 'a) \<Rightarrow> py_error + 'a" where
  "with_session db fallback body =
     (if session_ok db
      then (case body of Inl e \<Rightarrow> Inr fallback | Inr v \<Rightarrow> Inr v)
      else Inl UnboundLocalError)"

text \<open>\<open>try: body except Exception: return fallback\<close>, for the methods without a session.\<close>

definition catching :: "'a \<Rightarrow> (py_error + 'a) \<Rightarrow> py_error + 'a" where
  "catching fallback body = (case body of Inl e \<Rightarrow> Inr fallback | Inr v \<Rightarrow> Inr v)"

section \<open>Python helpers\<close>

text \<open>Truth value of an optional string argument: \<open>None\<close> and \<open>''\<close> are false.\<close>

fun truthy :: "string option \<Rightarrow> bool" where
  "truthy None = False"
| "truthy (Some s) = (s \<noteq> [])"

text \<open>\<open>str.lower\<close> on ASCII letters; other bytes are left as they are.\<close>

fun char_lower :: "char \<Rightarrow> char" where
  "char_lower (Char b0 b1 b2 b3 b4 b5 b6 b7) =
     (let n = (of_char (Char b0 b1 b2 b3 b4 b5 b6 b7) :: nat)
      in if 65 \<le> n \<and> n \<le> 90 then Char b0 b1 b2 b3 b4 True b6 b7
         else Char b0 b1 b2 b3 b4 b5 b6 b7)"

definition lower :: "string \<Rightarrow> string" where
  "lower s = map char_lower s"

text \<open>
  A stable sort in descending order of a key: \<open>list.sort(key=..., reverse=True)\<close> keeps
  the original order of equal keys. The same function stands for \<open>ORDER BY ... DESC\<close>
  and for pandas' \<open>sort_values(ascending=False)\<close>, which leave the order of equal keys
  open; no statement below depends on that order.
\<close>

definition sort_desc :: "('a \<Rightarrow> real) \<Rightarrow> 'a list \<Rightarrow> 'a list" where
  "sort_desc f xs = sort_key (\<lambda>x. - f x) xs"

definition sorted_desc :: "('a \<Rightarrow> real) \<Rightarrow> 'a list \<Rightarrow> bool" where
  "sorted_desc f xs = sorted_wrt (\<lambda>a b. f b \<le> f a) xs"

section \<open>Ranking engine (analytics/ranking_engine.py)\<close>

text \<open>
  An output dictionary: the product's \<open>to_dict()\<close> with the keys the method adds.
  A key that a method does not set is \<open>None\<close>.
\<close>

record ranking_entry =
  item :: product
  growth_rate :: "real option"
  value_score :: "real option"
  rank :: nat

text \<open>\<open>for i, product in enumerate(products): product['rank'] = i + 1\<close>\<close>

definition add_rank :: "(product \<times> real option \<times> real option) list \<Rightarrow> ranking_entry list" where
  "add_rank ps =
     map (\<lambda>(i, (p, g, v)). \<lparr>item = p, growth_rate = g, value_score = v, rank = i + 1\<rparr>)
         (enumerate 0 ps)"

text \<open>The filters \<open>if platform: query.filter(Product.platform == platform.lower())\<close> and
  \<open>if category: query.filter(Product.category == category)\<close>.\<close>

definition platform_filter :: "string option \<Rightarrow> product \<Rightarrow> bool" where
  "platform_filter pf p =
     (case pf of None \<Rightarrow> True
      | Some s \<Rightarrow> if s = [] then True else platform p = Some (lower s))"

definition category_filter :: "string option \<Rightarrow> product \<Rightarrow> bool" where
  "category_filter cf p =
     (case cf of None \<Rightarrow> True
      | Some c \<Rightarrow> if c = [] then True else category p = Some c)"

text \<open>The \<open>ORDER BY\<close> expression of the hot ranking.\<close>

definition hot_key :: "product \<Rightarrow> real" where
  "hot_key p = real_of_int (sales_volume p) * 1.0 + rating p * 20.0
                 + real_of_int (reviews_count p) * 0.1"

definition plain :: "product \<Rightarrow> product \<times> real option \<times> real option" where
  "plain p = (p, None, None)"

definition get_hot_products ::
  "db_manager \<Rightarrow> string option \<Rightarrow> string option \<Rightarrow> string \<Rightarrow> nat \<Rightarrow> py_error + ranking_entry list"
where
  "get_hot_products db pf cf time_range limit =
     with_session db []
       (case query_products db of
          Inl e \<Rightarrow> Inl e
        | Inr rows \<Rightarrow>
            Inr (add_rank (map plain (take limit (sort_desc hot_key
                   (filter (category_filter cf) (filter (platform_filter pf) rows)))))))"

text \<open>\<open>_get_time_threshold\<close>; no method of the engine calls it.\<close>

definition get_time_threshold :: "real \<Rightarrow> string \<Rightarrow> real" where
  "get_time_threshold now time_range =
     (if time_range = ''day'' then now - 86400
      else if time_range = ''week'' then now - 7 * 86400
      else if time_range = ''month'' then now - 30 * 86400
      else if time_range = ''year'' then now - 365 * 86400
      else now - 7 * 86400)"

subsection \<open>Rising ranking\<close>

text \<open>
  \<open>round(growth_rate, 2)\<close> acts on the binary float that the division and the
  multiplication produced, and that float can lie on the other side of a tie from the exact
  quotient: sales 160 and then 183 give the float 14.374999999999998 and the growth rate
  14.37, although the quotient is 14.375. Which neighbour a value next to a tie goes to is
  therefore not a function of the real numbers of this model, and the rising ranking takes
  the rounding as its parameter \<open>round2\<close>; the properties below hold for every rounding
  that stays within 0.005 of its argument and leaves whole numbers as they are.

  \<open>py_round2\<close> is the decimal rounding of a real number to two places, a tie going to
  the even neighbour. It is one such rounding, and runs the examples.
\<close>

definition round_half_even :: "real \<Rightarrow> int" where
  "round_half_even x =
     (let f = \<lfloor>x\<rfloor>; d = x - of_int f
      in if d < 1 / 2 then f else if 1 / 2 < d then f + 1
         else if even f then f else f + 1)"

definition py_round2 :: "real \<Rightarrow> real" where
  "py_round2 x = real_of_int (round_half_even (x * 100)) / 100"

text \<open>
  The history of one product since \<open>start_time\<close>, ordered by date ascending.
\<close>

definition history_window :: "product_history list \<Rightarrow> string \<Rightarrow> real \<Rightarrow> product_history list" where
  "history_window rows pid start_time =
     sort_key h_date (filter (\<lambda>h. h_product_id h = pid \<and> start_time \<le> h_date h) rows)"

text \<open>The growth rate computed inside the loop, before rounding.\<close>

definition growth_of :: "product_history list \<Rightarrow> real" where
  "growth_of history =
     (if 1 < length history
      then (let first_record = hd history; last_record = last history
            in if 0 < h_sales_volume first_record
               then (real_of_int (h_sales_volume last_record - h_sales_volume first_record)
                       / real_of_int (h_sales_volume first_record)) * 100
               else 0)
      else 0)"

text \<open>
  One iteration of the loop over the product ids, as the list of dictionaries it appends:
  none when no product has the id (\<open>continue\<close>) and none when the history query raises
  (the inner \<open>except\<close>).
\<close>

definition growth_entry ::
  "(real \<Rightarrow> real) \<Rightarrow> db_manager \<Rightarrow> real \<Rightarrow> string
     \<Rightarrow> (product \<times> real option \<times> real option) list" where
  "growth_entry round2 db start_time pid =
     (case find (\<lambda>p. product_id p = pid) (products db) of
        None \<Rightarrow> []
      | Some p \<Rightarrow>
          (case query_history db of
             Inl e \<Rightarrow> []
           | Inr rows \<Rightarrow>
               [(p, Some (round2 (growth_of (history_window rows pid start_time))), None)]))"

text \<open>The sort key \<open>x.get('growth_rate', 0)\<close>.\<close>

fun growth_key :: "product \<times> real option \<times> real option \<Rightarrow> real" where
  "growth_key (p, Some g, v) = g"
| "growth_key (p, None, v) = 0"

definition get_rising_products ::
  "(real \<Rightarrow> real) \<Rightarrow> db_manager \<Rightarrow> string option \<Rightarrow> string option \<Rightarrow> int \<Rightarrow> nat \<Rightarrow> real
     \<Rightarrow> py_error + ranking_entry list"
where
  "get_rising_products round2 db pf cf days limit now =
     with_session db []
       (let start_time = now - real_of_int days * 86400
        in case query_products db of
             Inl e \<Rightarrow> Inl e
           | Inr rows \<Rightarrow>
               (let product_ids =
                      map product_id (filter (category_filter cf) (filter (platform_filter pf) rows))
                in if product_ids = [] then Inr []
                   else Inr (add_rank (take limit (sort_desc growth_key
                          (concat (map (growth_entry round2 db start_time) product_ids)))))))"


subsection \<open>Value ranking\<close>

text \<open>
  \<open>get_price_performance_ranking\<close> compares the platform as given, without
  \<open>lower()\<close>.
\<close>

definition exact_platform_filter :: "string option \<Rightarrow> product \<Rightarrow> bool" where
  "exact_platform_filter pf p =
     (case pf of None \<Rightarrow> True
      | Some s \<Rightarrow> if s = [] then True else platform p = Some s)"

text \<open>
  The mask \<open>(df['price'] > 0) & (df['rating'] > 0)\<close>; a NULL price is NaN in the frame
  and fails the comparison.
\<close>

definition valid_row :: "product \<Rightarrow> bool" where
  "valid_row p = (case price p of None \<Rightarrow> False | Some x \<Rightarrow> 0 < x \<and> 0 < rating p)"

text \<open>\<open>df['rating'] / np.log1p(df['price'])\<close>, on rows that passed the mask.\<close>

definition value_score_of :: "product \<Rightarrow> real" where
  "value_score_of p = (case price p of None \<Rightarrow> 0 | Some x \<Rightarrow> rating p / ln (1 + x))"

definition with_value :: "product \<Rightarrow> product \<times> real option \<times> real option" where
  "with_value p = (p, None, Some (value_score_of p))"

text \<open>
  A frame built from no rows has no columns, which the method answers with \<open>[]\<close>;
  so it does a frame that the mask leaves empty.
\<close>

definition get_price_performance_ranking ::
  "db_manager \<Rightarrow> string option \<Rightarrow> string option \<Rightarrow> nat \<Rightarrow> py_error + ranking_entry list"
where
  "get_price_performance_ranking db pf cf limit =
     with_session db []
       (case query_products db of
          Inl e \<Rightarrow> Inl e
        | Inr rows \<Rightarrow>
            (let products = filter (category_filter cf) (filter (exact_platform_filter pf) rows)
             in if products = [] then Inr []
                else (let df = filter valid_row products
                      in if df = [] then Inr []
                         else Inr (add_rank (map with_value
                                (take limit (sort_desc value_score_of df)))))))"


section \<open>Data enricher (data_processing/data_enricher.py)\<close>

text \<open>
  The product dictionary as \<open>_calculate_price_rating\<close> reads it: the keys \<open>price\<close>
  and \<open>rating\<close>, each absent, \<open>None\<close> or a number.
\<close>

record product_dict =
  dict_price :: "real option"
  dict_rating :: "real option"

text \<open>
  The tier for a price and a rating that are both present and non-zero. numpy's
  \<open>log1p\<close> returns nan below -1 and -inf at -1, and a division by zero returns an
  infinity; none of them raises, and a comparison with nan is false.
\<close>

definition price_tier :: "real \<Rightarrow> real \<Rightarrow> string" where
  "price_tier pr rt =
     (if 1 + pr \<le> 0 then ''Expensive''
      else if ln (1 + pr) + 1 = 0
           then (if 0 < rt then ''Good Value'' else ''Expensive'')
      else (let price_rating_ratio = rt / (ln (1 + pr) + 1)
            in if 1 < price_rating_ratio then ''Good Value''
               else if 0.5 < price_rating_ratio then ''Fair Value''
               else ''Expensive''))"

text \<open>\<open>not product.get('price')\<close> holds for a missing key, for \<open>None\<close> and for 0.\<close>

definition calculate_price_rating :: "product_dict \<Rightarrow> string" where
  "calculate_price_rating d =
     (case dict_price d of
        None \<Rightarrow> ''Unknown''
      | Some pr \<Rightarrow>
          (case dict_rating d of
             None \<Rightarrow> ''Unknown''
           | Some rt \<Rightarrow>
               if pr = 0 \<or> rt = 0 then ''Unknown'' else price_tier pr rt))"

section \<open>Ranking engine: grouped rankings and attributes\<close>

text \<open>
  The dictionaries returned by the grouped rankings, from a category, a price-range label
  or a platform to its list.
\<close>

type_synonym ranking_map = "string \<rightharpoonup> ranking_entry list"

text \<open>
  The loop shared by the grouped rankings: \<open>products = ...; if products: result[key] = products\<close>
  for each key in turn. An exception of one iteration leaves the loop.
\<close>

fun collect ::
  "('k \<Rightarrow> string) \<Rightarrow> ('k \<Rightarrow> py_error + ranking_entry list) \<Rightarrow> 'k list \<Rightarrow> ranking_map
     \<Rightarrow> py_error + ranking_map"
where
  "collect name f [] result = Inr result"
| "collect name f (k # ks) result =
     (case f k of
        Inl e \<Rightarrow> Inl e
      | Inr found \<Rightarrow>
          collect name f ks (if found \<noteq> [] then result(name k \<mapsto> found) else result))"

text \<open>
  \<open>[c[0] for c in category_query.all() if c[0]]\<close> over the distinct categories of the
  platform: NULL and the empty string are dropped.
\<close>

definition distinct_categories :: "string option \<Rightarrow> product list \<Rightarrow> string list" where
  "distinct_categories pf rows =
     concat (map (\<lambda>c. case c of None \<Rightarrow> [] | Some s \<Rightarrow> if s = [] then [] else [s])
                 (remdups (map category (filter (platform_filter pf) rows))))"

definition get_category_rankings ::
  "db_manager \<Rightarrow> string option \<Rightarrow> nat \<Rightarrow> py_error + ranking_map" where
  "get_category_rankings db pf limit_per_category =
     with_session db Map.empty
       (case query_products db of
          Inl e \<Rightarrow> Inl e
        | Inr rows \<Rightarrow>
            collect id (\<lambda>c. get_hot_products db pf (Some c) ''week'' limit_per_category)
              (distinct_categories pf rows) Map.empty)"

text \<open>
  A price range \<open>{'min': ..., 'max': ..., 'label': ...}\<close>; \<open>range_max = None\<close>
  stands for \<open>float('inf')\<close>. The default labels are written as their UTF-8 bytes.
\<close>

record price_range =
  range_min :: real
  range_max :: "real option"
  range_label :: string

definition default_price_ranges :: "price_range list" where
  "default_price_ranges =
     [\<lparr>range_min = 0, range_max = Some 50,
        range_label = [CHR 0xE4, CHR 0xBD, CHR 0x8E, CHR 0xE4, CHR 0xBB, CHR 0xB7]\<rparr>,
      \<lparr>range_min = 50, range_max = Some 200,
        range_label = [CHR 0xE4, CHR 0xB8, CHR 0xAD, CHR 0xE4, CHR 0xBB, CHR 0xB7]\<rparr>,
      \<lparr>range_min = 200, range_max = Some 1000,
        range_label = [CHR 0xE9, CHR 0xAB, CHR 0x98, CHR 0xE4, CHR 0xBB, CHR 0xB7]\<rparr>,
      \<lparr>range_min = 1000, range_max = None,
        range_label = [CHR 0xE5, CHR 0xA5, CHR 0xA2, CHR 0xE4, CHR 0xBE, CHR 0x88,
                       CHR 0xE5, CHR 0x93, CHR 0x81]\<rparr>]"

text \<open>
  \<open>price >= min\<close>, and \<open>price < max\<close> unless \<open>max\<close> is infinite; a NULL price
  satisfies no comparison.
\<close>

definition in_price_range :: "price_range \<Rightarrow> product \<Rightarrow> bool" where
  "in_price_range r p =
     (case price p of
        None \<Rightarrow> False
      | Some x \<Rightarrow> range_min r \<le> x \<and> (case range_max r of None \<Rightarrow> True | Some m \<Rightarrow> x < m))"

text \<open>The body of the loop over the price ranges.\<close>

definition range_products ::
  "db_manager \<Rightarrow> string option \<Rightarrow> nat \<Rightarrow> price_range \<Rightarrow> py_error + ranking_entry list" where
  "range_products db pf limit_per_range r =
     (case query_products db of
        Inl e \<Rightarrow> Inl e
      | Inr rows \<Rightarrow>
          Inr (add_rank (map plain (take limit_per_range (sort_desc hot_key
                 (filter (in_price_range r) (filter (platform_filter pf) rows)))))))"

definition get_price_range_rankings ::
  "db_manager \<Rightarrow> string option \<Rightarrow> price_range list option \<Rightarrow> nat \<Rightarrow> py_error + ranking_map"
where
  "get_price_range_rankings db pf price_ranges limit_per_range =
     (let ranges = (case price_ranges of
                      None \<Rightarrow> default_price_ranges
                    | Some rs \<Rightarrow> if rs = [] then default_price_ranges else rs)
      in with_session db Map.empty
           (collect range_label (range_products db pf limit_per_range) ranges Map.empty))"

text \<open>
  \<open>get_cross_platform_comparison\<close> and \<open>get_popular_attributes\<close> open no session
  of their own.
\<close>

definition get_cross_platform_comparison ::
  "db_manager \<Rightarrow> string option \<Rightarrow> nat \<Rightarrow> py_error + ranking_map" where
  "get_cross_platform_comparison db cf limit =
     catching Map.empty
       (collect id (\<lambda>pl. get_hot_products db (Some pl) cf ''week'' limit)
          [''tiktok'', ''amazon'', ''shopee''] Map.empty)"

text \<open>
  The result of \<open>get_popular_attributes\<close>; the empty dictionary \<open>{}\<close> is
  \<open>None\<close>.
\<close>

record attributes =
  top_keywords :: "(string \<times> nat) list"
  price_min :: real
  price_max :: real
  price_average :: real
  price_median :: real
  rating_average :: real
  rating_min :: real
  rating_max :: real
  total_products_analyzed :: nat

text \<open>The distinct elements of a list in the order of their first occurrence.\<close>

definition first_seen :: "'a list \<Rightarrow> 'a list" where
  "first_seen xs = rev (remdups (rev xs))"

text \<open>
  \<open>pd.Series(keywords).value_counts()\<close> followed by the stable sort on the counts:
  keywords with the same count stay in the order in which they were first met.
\<close>

definition value_counts :: "string list \<Rightarrow> (string \<times> nat) list" where
  "value_counts ks =
     sort_desc (\<lambda>kc. real (snd kc)) (map (\<lambda>k. (k, count_list ks k)) (first_seen ks))"

definition product_keywords :: "product \<Rightarrow> string list" where
  "product_keywords p = (case keyword_list p of None \<Rightarrow> [] | Some ks \<Rightarrow> ks)"

text \<open>
  \<open>[product.get('price', 0) for product in hot_products if product.get('price', 0) > 0]\<close>:
  the key \<open>price\<close> is always present, and comparing \<open>None\<close> with 0 raises
  TypeError.
\<close>

fun positive_prices :: "product list \<Rightarrow> py_error + real list" where
  "positive_prices [] = Inr []"
| "positive_prices (p # ps) =
     (case price p of
        None \<Rightarrow> Inl TypeError
      | Some x \<Rightarrow>
          (case positive_prices ps of
             Inl e \<Rightarrow> Inl e
           | Inr xs \<Rightarrow> Inr (if 0 < x then x # xs else xs)))"

definition list_min :: "real list \<Rightarrow> real" where
  "list_min xs = (if xs = [] then 0 else Min (set xs))"

definition list_max :: "real list \<Rightarrow> real" where
  "list_max xs = (if xs = [] then 0 else Max (set xs))"

definition list_average :: "real list \<Rightarrow> real" where
  "list_average xs = (if xs = [] then 0 else sum_list xs / real (length xs))"

definition list_median :: "real list \<Rightarrow> real" where
  "list_median xs = (if xs = [] then 0 else sort xs ! (length xs div 2))"

definition get_popular_attributes ::
  "db_manager \<Rightarrow> string option \<Rightarrow> string option \<Rightarrow> nat \<Rightarrow> py_error + attributes option" where
  "get_popular_attributes db pf cf limit =
     catching None
       (case get_hot_products db pf cf ''week'' 50 of
          Inl e \<Rightarrow> Inl e
        | Inr entries \<Rightarrow>
            if entries = [] then Inr None
            else (let hot_products = map item entries;
                      keywords = concat (map product_keywords hot_products);
                      ratings = filter (\<lambda>r. 0 < r) (map rating hot_products)
                  in case positive_prices hot_products of
                       Inl e \<Rightarrow> Inl e
                     | Inr prices \<Rightarrow>
                         Inr (Some \<lparr>top_keywords = take limit (value_counts keywords),
                                price_min = list_min prices, price_max = list_max prices,
                                price_average = list_average prices,
                                price_median = list_median prices,
                                rating_average = list_average ratings,
                                rating_min = list_min ratings, rating_max = list_max ratings,
                                total_products_analyzed = length hot_products\<rparr>)))"

section \<open>Trend analyzer (analytics/trend_analyzer.py)\<close>

text \<open>
  A pandas frame after \<open>pivot\<close>: the index (calendar days, numbered) and the columns
  by name, each with one value per index entry; \<open>None\<close> is NaN.
\<close>

record frame =
  frame_index :: "int list"
  frame_columns :: "(string \<times> real option list) list"

text \<open>
  \<open>pd.to_datetime(df['date'], unit='s').dt.date\<close>, and the days from
  \<open>start_time.date()\<close> to \<open>end_time.date()\<close>. Both are taken in UTC; \<open>now\<close> is
  the timestamp of \<open>datetime.now()\<close>.
\<close>

definition day_of :: "real \<Rightarrow> int" where
  "day_of t = \<lfloor>t / 86400\<rfloor>"

definition date_range :: "real \<Rightarrow> int \<Rightarrow> int list" where
  "date_range now days = [day_of (now - real_of_int days * 86400) .. day_of now]"

text \<open>The values that are not NaN: pandas sums and means skip NaN.\<close>

fun present :: "real option list \<Rightarrow> real list" where
  "present [] = []"
| "present (None # vs) = present vs"
| "present (Some x # vs) = x # present vs"

definition agg_sum :: "real option list \<Rightarrow> real option" where
  "agg_sum vs = Some (sum_list (present vs))"

definition agg_mean :: "real option list \<Rightarrow> real option" where
  "agg_mean vs =
     (let xs = present vs in if xs = [] then None else Some (sum_list xs / real (length xs)))"

text \<open>
  A row of a grouped frame: the day, the grouping key (a platform or a category) and the
  value. \<open>groupby\<close> drops the rows whose key is NULL.
\<close>

type_synonym keyed_row = "int \<times> string \<times> real option"

definition group_values :: "keyed_row list \<Rightarrow> int \<Rightarrow> string \<Rightarrow> real option list" where
  "group_values rows d k = map (\<lambda>r. snd (snd r)) (filter (\<lambda>r. fst r = d \<and> fst (snd r) = k) rows)"

definition group_cell ::
  "(real option list \<Rightarrow> real option) \<Rightarrow> keyed_row list \<Rightarrow> int \<Rightarrow> string \<Rightarrow> real option" where
  "group_cell agg rows d k =
     (let vs = group_values rows d k in if vs = [] then None else agg vs)"

text \<open>
  \<open>groupby([date, key]).agg().reset_index().pivot(index=date, columns=key)\<close>: the days and
  the keys that occur, both sorted, and NaN where a day has no row for a key.
\<close>

definition pivot :: "(real option list \<Rightarrow> real option) \<Rightarrow> keyed_row list \<Rightarrow> frame" where
  "pivot agg rows =
     (let idx = sort (remdups (map fst rows))
      in \<lparr>frame_index = idx,
          frame_columns = map (\<lambda>k. (k, map (\<lambda>d. group_cell agg rows d k) idx))
                              (sort (remdups (map (\<lambda>r. fst (snd r)) rows)))\<rparr>)"

text \<open>\<open>groupby('date').agg().reset_index().set_index('date')\<close>: one column.\<close>

definition single_column ::
  "(real option list \<Rightarrow> real option) \<Rightarrow> string \<Rightarrow> (int \<times> real option) list \<Rightarrow> frame" where
  "single_column agg name rows =
     (let idx = sort (remdups (map fst rows))
      in \<lparr>frame_index = idx,
          frame_columns =
            [(name, map (\<lambda>d. agg (map snd (filter (\<lambda>r. fst r = d) rows))) idx)]\<rparr>)"

definition fill_zero :: "real option \<Rightarrow> real option" where
  "fill_zero v = (case v of None \<Rightarrow> Some 0 | Some x \<Rightarrow> Some x)"

definition fillna0 :: "frame \<Rightarrow> frame" where
  "fillna0 fr = fr\<lparr>frame_columns := map (\<lambda>(k, vs). (k, map fill_zero vs)) (frame_columns fr)\<rparr>"

text \<open>
  \<open>reindex\<close>: the frame over a new index, NaN on the days the old index does not
  have.
\<close>

definition lookup_cell :: "int list \<Rightarrow> real option list \<Rightarrow> int \<Rightarrow> real option" where
  "lookup_cell idx vs d = (case map_of (zip idx vs) d of None \<Rightarrow> None | Some v \<Rightarrow> v)"

definition reindex :: "int list \<Rightarrow> frame \<Rightarrow> frame" where
  "reindex new_index fr =
     \<lparr>frame_index = new_index,
      frame_columns = map (\<lambda>(k, vs). (k, map (lookup_cell (frame_index fr) vs) new_index))
                          (frame_columns fr)\<rparr>"

text \<open>\<open>fillna(method='ffill')\<close>: NaN takes the last value above it, if there is one.\<close>

fun ffill_from :: "real option \<Rightarrow> real option list \<Rightarrow> real option list" where
  "ffill_from prev [] = []"
| "ffill_from prev (None # vs) = prev # ffill_from prev vs"
| "ffill_from prev (Some x # vs) = Some x # ffill_from (Some x) vs"

definition ffill :: "frame \<Rightarrow> frame" where
  "ffill fr = fr\<lparr>frame_columns := map (\<lambda>(k, vs). (k, ffill_from None vs)) (frame_columns fr)\<rparr>"

text \<open>\<open>sum(axis=1)\<close> and \<open>mean(axis=1)\<close>, row by row.\<close>

definition row_values :: "frame \<Rightarrow> nat \<Rightarrow> real option list" where
  "row_values fr i = map (\<lambda>(k, vs). vs ! i) (frame_columns fr)"

definition row_sum :: "frame \<Rightarrow> real option list" where
  "row_sum fr = map (\<lambda>i. agg_sum (row_values fr i)) [0..<length (frame_index fr)]"

definition row_mean :: "frame \<Rightarrow> real option list" where
  "row_mean fr = map (\<lambda>i. agg_mean (row_values fr i)) [0..<length (frame_index fr)]"

text \<open>\<open>pivot_df[name] = values\<close>: the column is replaced, or added at the end.\<close>

definition set_column :: "string \<Rightarrow> real option list \<Rightarrow> frame \<Rightarrow> frame" where
  "set_column name vs fr =
     (if name \<in> fst ` set (frame_columns fr)
      then fr\<lparr>frame_columns := map (\<lambda>(k, old). if k = name then (k, vs) else (k, old))
                                     (frame_columns fr)\<rparr>
      else fr\<lparr>frame_columns := frame_columns fr @ [(name, vs)]\<rparr>)"

definition column :: "frame \<Rightarrow> string \<Rightarrow> real option list" where
  "column fr name = (case map_of (frame_columns fr) name of None \<Rightarrow> [] | Some vs \<Rightarrow> vs)"

text \<open>
  matplotlib is outside the repository. The record says for which data a line chart, or
  the pie chart, is drawn; a drawing that fails raises inside the \<open>try\<close>. The image
  strings and the analysis period are left out of the results.
\<close>

record pyplot =
  plot_lines :: "frame \<Rightarrow> bool"
  plot_pie :: "(string \<times> real) list \<Rightarrow> bool"

text \<open>
  The history query of the three analyses: \<open>date >= start_timestamp\<close> and the platform
  and category as given.
\<close>

definition history_filter ::
  "real \<Rightarrow> string option \<Rightarrow> string option \<Rightarrow> product_history \<Rightarrow> bool" where
  "history_filter start_timestamp pf cf h =
     (start_timestamp \<le> h_date h
      \<and> (case pf of None \<Rightarrow> True | Some s \<Rightarrow> if s = [] then True else h_platform h = Some s)
      \<and> (case cf of None \<Rightarrow> True | Some c \<Rightarrow> if c = [] then True else h_category h = Some c))"


definition keyed ::
  "(product_history \<Rightarrow> string option) \<Rightarrow> (product_history \<Rightarrow> real option)
     \<Rightarrow> product_history list \<Rightarrow> keyed_row list" where
  "keyed key val rows =
     concat (map (\<lambda>h. case key h of None \<Rightarrow> [] | Some k \<Rightarrow> [(day_of (h_date h), k, val h)]) rows)"

definition sales_value :: "product_history \<Rightarrow> real option" where
  "sales_value h = Some (real_of_int (h_sales_volume h))"

definition growth_between :: "real \<Rightarrow> real \<Rightarrow> real" where
  "growth_between first_day last_day =
     (if 0 < first_day then (last_day - first_day) / first_day * 100 else 0)"

definition value_or_zero :: "real option \<Rightarrow> real" where
  "value_or_zero v = (case v of None \<Rightarrow> 0 | Some x \<Rightarrow> x)"

record sales_trend =
  sales_trend_data :: frame
  sales_growth_rate :: real

text \<open>
  The four branches of \<open>analyze_sales_trend\<close>; the last one groups by date, platform
  and category first, so that it drops the rows without a category as well.
\<close>

definition sales_pivot ::
  "string option \<Rightarrow> string option \<Rightarrow> product_history list \<Rightarrow> frame" where
  "sales_pivot pf cf df =
     (if truthy pf \<and> \<not> truthy cf
      then fillna0 (pivot agg_sum (keyed h_category sales_value df))
      else if truthy cf \<and> \<not> truthy pf
      then fillna0 (pivot agg_sum (keyed h_platform sales_value df))
      else if truthy pf \<and> truthy cf
      then single_column agg_sum ''sales_volume''
             (map (\<lambda>h. (day_of (h_date h), sales_value h)) df)
      else fillna0 (pivot agg_sum (keyed h_platform sales_value
             (filter (\<lambda>h. h_category h \<noteq> None) df))))"

definition sales_frame :: "int list \<Rightarrow> frame \<Rightarrow> frame" where
  "sales_frame dates pivot_df =
     (let filled = fillna0 (reindex dates pivot_df)
      in set_column ''total'' (row_sum filled) filled)"

definition analyze_sales_trend ::
  "pyplot \<Rightarrow> db_manager \<Rightarrow> string option \<Rightarrow> string option \<Rightarrow> int \<Rightarrow> real \<Rightarrow> py_error + sales_trend option"
where
  "analyze_sales_trend plt db pf cf days now =
     with_session db None
       (case query_history db of
          Inl e \<Rightarrow> Inl e
        | Inr results \<Rightarrow>
            (let df = filter (history_filter (now - real_of_int days * 86400) pf cf) results;
                 pivot_df = sales_frame (date_range now days) (sales_pivot pf cf df);
                 totals = column pivot_df ''total'';
                 first_day_total = (if totals = [] then 0 else value_or_zero (hd totals));
                 last_day_total = (if totals = [] then 0 else value_or_zero (last totals))
             in if plot_lines plt pivot_df
                then Inr (Some \<lparr>sales_trend_data = pivot_df,
                       sales_growth_rate = growth_between first_day_total last_day_total\<rparr>)
                else Inl ValueError))"

record price_trend =
  price_trend_data :: frame
  price_change_rate :: "real option"

definition change_between :: "real option \<Rightarrow> real option \<Rightarrow> real option" where
  "change_between first_day last_day =
     (case first_day of
        None \<Rightarrow> Some 0
      | Some f \<Rightarrow>
          if 0 < f then (case last_day of None \<Rightarrow> None | Some l \<Rightarrow> Some ((l - f) / f * 100))
          else Some 0)"

text \<open>
  The four branches of \<open>analyze_price_trend\<close>. Three of them end in \<open>fillna(0)\<close>.
\<close>

definition price_pivot ::
  "string option \<Rightarrow> string option \<Rightarrow> product_history list \<Rightarrow> frame" where
  "price_pivot pf cf df =
     (if truthy pf \<and> truthy cf
      then single_column agg_mean ''average_price''
             (map (\<lambda>h. (day_of (h_date h), h_price h)) df)
      else if truthy pf
      then fillna0 (pivot agg_mean (keyed h_category h_price df))
      else if truthy cf
      then fillna0 (pivot agg_mean (keyed h_platform h_price df))
      else fillna0 (pivot agg_mean (keyed h_platform h_price df)))"

definition price_frame :: "int list \<Rightarrow> frame \<Rightarrow> frame" where
  "price_frame dates pivot_df =
     (let filled = ffill (reindex dates pivot_df)
      in if ''average_price'' \<in> fst ` set (frame_columns filled) then filled
         else set_column ''average_price'' (row_mean filled) filled)"

definition analyze_price_trend ::
  "pyplot \<Rightarrow> db_manager \<Rightarrow> string option \<Rightarrow> string option \<Rightarrow> int \<Rightarrow> real \<Rightarrow> py_error + price_trend option"
where
  "analyze_price_trend plt db pf cf days now =
     with_session db None
       (case query_history db of
          Inl e \<Rightarrow> Inl e
        | Inr results \<Rightarrow>
            (let df = filter (history_filter (now - real_of_int days * 86400) pf cf) results;
                 pivot_df = price_frame (date_range now days) (price_pivot pf cf df);
                 averages = column pivot_df ''average_price'';
                 first_day_avg = (if averages = [] then Some 0 else hd averages);
                 last_day_avg = (if averages = [] then Some 0 else last averages)
             in if plot_lines plt pivot_df
                then Inr (Some \<lparr>price_trend_data = pivot_df,
                       price_change_rate = change_between first_day_avg last_day_avg\<rparr>)
                else Inl ValueError))"

record category_trend =
  category_trend_data :: frame
  category_totals :: "(string \<times> real) list"
  growth_rates :: "(string \<times> real) list"

text \<open>
  \<open>grouped.groupby('category')['sales_volume'].sum().sort_values(ascending=False)\<close>
\<close>

definition totals_by_category :: "keyed_row list \<Rightarrow> (string \<times> real) list" where
  "totals_by_category rows =
     sort_desc snd
       (map (\<lambda>c. (c, sum_list (present (map (\<lambda>r. snd (snd r)) (filter (\<lambda>r. fst (snd r) = c) rows)))))
            (sort (remdups (map (\<lambda>r. fst (snd r)) rows))))"

text \<open>
  The loop over the columns; \<open>iloc[0]\<close> on a column without rows raises IndexError.
\<close>

fun column_growth :: "(string \<times> real option list) list \<Rightarrow> py_error + (string \<times> real) list" where
  "column_growth [] = Inr []"
| "column_growth ((k, vs) # cols) =
     (if vs = [] then Inl IndexError
      else (case column_growth cols of
              Inl e \<Rightarrow> Inl e
            | Inr rates \<Rightarrow>
                Inr ((k, growth_between (value_or_zero (hd vs)) (value_or_zero (last vs))) # rates)))"

definition analyze_category_trend ::
  "pyplot \<Rightarrow> db_manager \<Rightarrow> string option \<Rightarrow> int \<Rightarrow> real \<Rightarrow> py_error + category_trend option"
where
  "analyze_category_trend plt db pf days now =
     with_session db None
       (case query_history db of
          Inl e \<Rightarrow> Inl e
        | Inr results \<Rightarrow>
            (let df = filter (history_filter (now - real_of_int days * 86400) pf None) results;
                 grouped = keyed h_category sales_value df;
                 totals = totals_by_category grouped;
                 top_categories = take 5 (map fst totals);
                 filtered_df = filter (\<lambda>r. fst (snd r) \<in> set top_categories) grouped;
                 pivot_df = fillna0 (reindex (date_range now days)
                              (fillna0 (pivot agg_sum filtered_df)))
             in if \<not> plot_lines plt pivot_df then Inl ValueError
                else (case column_growth (frame_columns pivot_df) of
                        Inl e \<Rightarrow> Inl e
                      | Inr rates \<Rightarrow>
                          if plot_pie plt (take 5 totals)
                          then Inr (Some \<lparr>category_trend_data = pivot_df,
                                 category_totals = totals, growth_rates = rates\<rparr>)
                          else Inl ValueError)))"

text \<open>
  \<open>get_trend_summary\<close> is defined twice in the class, and the second definition is the
  method. Its text is represented by the values it prints and the sentences it chooses.
  The three analyses read the clock one after the other; the model gives them one time.
\<close>

datatype market_note = Strong_growth | Decline | Stable

datatype price_note = Price_rising | Price_falling

record summary_text =
  text_sales_growth :: real
  text_top_category :: "string option \<times> real"
  text_fastest_growing :: "string option \<times> real"
  text_price_change :: "real option"
  text_market :: market_note
  text_explosive :: "string option option"
  text_price :: "price_note option"

datatype trend_summary =
    Failed string "sales_trend option" "category_trend option" "price_trend option"
  | Summary summary_text sales_trend category_trend price_trend

text \<open>\<open>max(d.items(), key=lambda x: x[1])\<close>, the first maximum, and \<open>(None, 0)\<close> for an empty dictionary.\<close>

fun first_max :: "(string \<times> real) list \<Rightarrow> string option \<times> real" where
  "first_max [] = (None, 0)"
| "first_max [(k, v)] = (Some k, v)"
| "first_max ((k, v) # kvs) =
     (let m = first_max kvs in if snd m \<le> v then (Some k, v) else m)"

definition greater_than :: "real option \<Rightarrow> real \<Rightarrow> bool" where
  "greater_than v c = (case v of None \<Rightarrow> False | Some x \<Rightarrow> c < x)"

definition less_than :: "real option \<Rightarrow> real \<Rightarrow> bool" where
  "less_than v c = (case v of None \<Rightarrow> False | Some x \<Rightarrow> x < c)"

definition summarize :: "sales_trend \<Rightarrow> category_trend \<Rightarrow> price_trend \<Rightarrow> summary_text" where
  "summarize s c p =
     (let fastest_growing = first_max (growth_rates c);
          top_category = first_max (category_totals c);
          price_change = price_change_rate p
      in \<lparr>text_sales_growth = sales_growth_rate s,
          text_top_category = top_category,
          text_fastest_growing = fastest_growing,
          text_price_change = price_change,
          text_market = (if 20 < sales_growth_rate s then Strong_growth
                         else if sales_growth_rate s < - 10 then Decline else Stable),
          text_explosive = (if 50 < snd fastest_growing then Some (fst fastest_growing) else None),
          text_price = (if greater_than price_change 10 then Some Price_rising
                        else if less_than price_change (- 10) then Some Price_falling
                        else None)\<rparr>)"

definition get_trend_summary ::
  "pyplot \<Rightarrow> db_manager \<Rightarrow> string option \<Rightarrow> int \<Rightarrow> real \<Rightarrow> py_error + trend_summary" where
  "get_trend_summary plt db pf days now =
     (case analyze_sales_trend plt db pf None days now of
        Inl e \<Rightarrow> Inl e
      | Inr s \<Rightarrow>
          (case analyze_category_trend plt db pf days now of
             Inl e \<Rightarrow> Inl e
           | Inr c \<Rightarrow>
               (case analyze_price_trend plt db pf None days now of
                  Inl e \<Rightarrow> Inl e
                | Inr p \<Rightarrow>
                    (case s of
                       None \<Rightarrow> Inr (Failed ''Failed to generate trend summary'' s c p)
                     | Some s' \<Rightarrow>
                         (case c of
                            None \<Rightarrow> Inr (Failed ''Failed to generate trend summary'' s c p)
                          | Some c' \<Rightarrow>
                              (case p of
                                 None \<Rightarrow>
                                   Inr (Failed ''Failed to generate trend summary'' s c p)
                               | Some p' \<Rightarrow> Inr (Summary (summarize s' c' p') s' c' p')))))))"

section \<open>Example inputs\<close>

text \<open>
  Two products whose stored popularity scores are the ones \<open>calculate_popularity_score\<close>
  gives them, in a store that lists the better-scored one first.
\<close>

definition prod_a :: product where
  "prod_a = \<lparr>platform = Some ''amazon'', product_id = ''A'', price = Some 10,
     sales_volume = 2000, rating = 0, reviews_count = 0, category = Some ''toys'',
     popularity_score = 60, keyword_list = None\<rparr>"

definition prod_b :: product where
  "prod_b = \<lparr>platform = Some ''amazon'', product_id = ''B'', price = Some 20,
     sales_volume = 1000, rating = 5, reviews_count = 500, category = Some ''toys'',
     popularity_score = 100, keyword_list = None\<rparr>"

definition hot_store :: db_manager where
  "hot_store = \<lparr>session_ok = True, products_ok = True, history_ok = True,
     products = [prod_b, prod_a], history_rows = []\<rparr>"






text \<open>A store whose queries on the table \<open>products\<close> raise.\<close>

definition failing_store :: db_manager where
  "failing_store = \<lparr>session_ok = True, products_ok = False, history_ok = False,
     products = [prod_a, prod_b], history_rows = []\<rparr>"

text \<open>
  A history in which one platform has no row on the second day and no platform has a row
  on the third, two plotters, and a history with six categories.
\<close>

definition snap ::
  "string \<Rightarrow> string \<Rightarrow> real \<Rightarrow> real \<Rightarrow> int \<Rightarrow> product_history" where
  "snap pl cat t pr s = \<lparr>h_product_id = ''X'', h_platform = Some pl, h_category = Some cat,
     h_date = t, h_price = Some pr, h_sales_volume = s, h_rating = 4, h_reviews_count = 0\<rparr>"

definition gap_store :: db_manager where
  "gap_store = \<lparr>session_ok = True, products_ok = True, history_ok = True, products = [],
     history_rows = [snap ''amazon'' ''toys'' 86500 10 5, snap ''shopee'' ''toys'' 86600 22 7,
                     snap ''amazon'' ''toys'' 172900 12 6]\<rparr>"

definition drawing :: pyplot where
  "drawing = \<lparr>plot_lines = (\<lambda>fr. True), plot_pie = (\<lambda>totals. True)\<rparr>"

definition no_pie :: pyplot where
  "no_pie = \<lparr>plot_lines = (\<lambda>fr. True), plot_pie = (\<lambda>totals. False)\<rparr>"


section \<open>Properties\<close>

lemma sorted_desc_sort_desc: "sorted_desc f (sort_desc f xs)"
proof -
  have "sorted (map (\<lambda>x. - f x) (sort_key (\<lambda>x. - f x) xs))"
    by (rule sorted_sort_key)
  then show ?thesis
    by (simp add: sorted_desc_def sort_desc_def sorted_map)
qed

lemma sorted_desc_take: "sorted_desc f xs \<Longrightarrow> sorted_desc f (take n xs)"
  unfolding sorted_desc_def by (rule sorted_wrt_take)

lemma length_add_rank: "length (add_rank ps) = length ps"
  by (simp add: add_rank_def)

lemma nth_add_rank:
  "i < length ps \<Longrightarrow>
   add_rank ps ! i = \<lparr>item = fst (ps ! i), growth_rate = fst (snd (ps ! i)),
                      value_score = snd (snd (ps ! i)), rank = i + 1\<rparr>"
  by (simp add: add_rank_def nth_enumerate_eq case_prod_beta)

lemma map_item_add_rank: "map item (add_rank ps) = map fst ps"
  by (rule nth_equalityI) (simp_all add: length_add_rank nth_add_rank)

lemma rank_add_rank: "i < length ps \<Longrightarrow> rank (add_rank ps ! i) = i + 1"
  by (simp add: nth_add_rank)

lemma sorted_desc_map: "sorted_desc f (map g xs) = sorted_desc (f \<circ> g) xs"
  by (simp add: sorted_desc_def sorted_wrt_map)

subsection \<open>Hot ranking\<close>

lemma hot_store_result:
  "get_hot_products hot_store None None ''week'' 20 =
     Inr [\<lparr>item = prod_a, growth_rate = None, value_score = None, rank = 1\<rparr>,
          \<lparr>item = prod_b, growth_rate = None, value_score = None, rank = 2\<rparr>]"
  by (simp add: get_hot_products_def with_session_def query_products_def hot_store_def
      platform_filter_def category_filter_def sort_desc_def hot_key_def prod_a_def prod_b_def
      add_rank_def plain_def enumerate_eq_zip upt_rec)

text \<open>
  C1, as the code has it. Whenever the hot ranking returns a list, the list is in
  descending order of the \<open>ORDER BY\<close> expression
  \<open>sales_volume * 1.0 + rating * 20.0 + reviews_count * 0.1\<close> of its entries, the rank of
  every entry is its 1-based position, and the list is no longer than \<open>limit\<close>.
\<close>

theorem hot_products_sorted_ranked_bounded:
  assumes "get_hot_products db pf cf time_range limit = Inr es"
  shows "sorted_desc (hot_key \<circ> item) es \<and> (\<forall>i<length es. rank (es ! i) = i + 1)
         \<and> length es \<le> limit"
proof (cases "session_ok db \<and> products_ok db")
  case True
  define ps where "ps = take limit (sort_desc hot_key
      (filter (category_filter cf) (filter (platform_filter pf) (products db))))"
  from True assms have es: "es = add_rank (map plain ps)"
    by (simp add: get_hot_products_def with_session_def query_products_def ps_def)
  have "map item es = ps"
    by (simp add: es map_item_add_rank plain_def comp_def)
  moreover have "sorted_desc hot_key ps"
    unfolding ps_def by (intro sorted_desc_take sorted_desc_sort_desc)
  ultimately have "sorted_desc (hot_key \<circ> item) es"
    by (metis sorted_desc_map)
  moreover have "\<forall>i<length es. rank (es ! i) = i + 1"
    by (simp add: es length_add_rank rank_add_rank)
  moreover have "length es \<le> limit"
    by (simp add: es length_add_rank ps_def)
  ultimately show ?thesis by blast
next
  case False
  with assms have "es = []"
    by (auto simp: get_hot_products_def with_session_def query_products_def split: if_splits)
  then show ?thesis by (simp add: sorted_desc_def)
qed

theorem hot_products_sorted_ranked_bounded_witness:
  "get_hot_products hot_store None None ''week'' 20 =
     Inr [\<lparr>item = prod_a, growth_rate = None, value_score = None, rank = 1\<rparr>,
          \<lparr>item = prod_b, growth_rate = None, value_score = None, rank = 2\<rparr>]
   \<and> sorted_desc (hot_key \<circ> item)
       [\<lparr>item = prod_a, growth_rate = None, value_score = None, rank = 1\<rparr>,
        \<lparr>item = prod_b, growth_rate = None, value_score = None, rank = 2\<rparr>]
   \<and> length [\<lparr>item = prod_a, growth_rate = None, value_score = None, rank = 1\<rparr>,
        \<lparr>item = prod_b, growth_rate = None, value_score = None, rank = 2\<rparr>] \<le> (20::nat)"
  using hot_products_sorted_ranked_bounded [OF hot_store_result] hot_store_result by simp

text \<open>
  C1 as stated fails: the hot ranking of \<open>hot_store\<close> puts the product with
  popularity score 60 before the one with popularity score 100. Both stored scores are
  the values \<open>calculate_popularity_score\<close> computes.
\<close>

theorem hot_products_not_sorted_by_popularity_score:
  "get_hot_products hot_store None None ''week'' 20 =
     Inr [\<lparr>item = prod_a, growth_rate = None, value_score = None, rank = 1\<rparr>,
          \<lparr>item = prod_b, growth_rate = None, value_score = None, rank = 2\<rparr>]
   \<and> \<not> sorted_desc (popularity_score \<circ> item)
       [\<lparr>item = prod_a, growth_rate = None, value_score = None, rank = 1\<rparr>,
        \<lparr>item = prod_b, growth_rate = None, value_score = None, rank = 2\<rparr>]
   \<and> snd (calculate_popularity_score prod_a) = popularity_score prod_a
   \<and> snd (calculate_popularity_score prod_b) = popularity_score prod_b"
proof -
  have "\<not> sorted_desc (popularity_score \<circ> item)
       [\<lparr>item = prod_a, growth_rate = None, value_score = None, rank = 1\<rparr>,
        \<lparr>item = prod_b, growth_rate = None, value_score = None, rank = 2\<rparr>]"
    by (simp add: sorted_desc_def prod_a_def prod_b_def)
  moreover have "snd (calculate_popularity_score prod_a) = popularity_score prod_a"
    by (simp add: calculate_popularity_score_def popularity_value_def prod_a_def)
  moreover have "snd (calculate_popularity_score prod_b) = popularity_score prod_b"
    by (simp add: calculate_popularity_score_def popularity_value_def prod_b_def)
  ultimately show ?thesis using hot_store_result by simp
qed

subsection \<open>Popularity score\<close>

text \<open>
  C2. For a product with rating in [0,5] and non-negative sales volume and review count,
  the popularity score lies in [0,100]; and the score does not decrease when one of
  sales volume, rating and review count grows while the other fields stay as they are.
\<close>

theorem popularity_score_range_monotone:
  assumes "0 \<le> rating p" and "rating p \<le> 5"
    and "0 \<le> sales_volume p" and "0 \<le> reviews_count p"
  shows "0 \<le> snd (calculate_popularity_score p)
       \<and> snd (calculate_popularity_score p) \<le> 100
       \<and> (\<forall>s s'. s \<le> s' \<longrightarrow>
            snd (calculate_popularity_score (p\<lparr>sales_volume := s\<rparr>))
              \<le> snd (calculate_popularity_score (p\<lparr>sales_volume := s'\<rparr>)))
       \<and> (\<forall>r r'. r \<le> r' \<longrightarrow>
            snd (calculate_popularity_score (p\<lparr>rating := r\<rparr>))
              \<le> snd (calculate_popularity_score (p\<lparr>rating := r'\<rparr>)))
       \<and> (\<forall>c c'. c \<le> c' \<longrightarrow>
            snd (calculate_popularity_score (p\<lparr>reviews_count := c\<rparr>))
              \<le> snd (calculate_popularity_score (p\<lparr>reviews_count := c'\<rparr>)))"
proof -
  have lo: "0 \<le> snd (calculate_popularity_score p)"
    using assms by (simp add: calculate_popularity_score_def popularity_value_def min_def)
  have hi: "snd (calculate_popularity_score p) \<le> 100"
    using assms by (simp add: calculate_popularity_score_def popularity_value_def min_def)
  have sales: "snd (calculate_popularity_score (p\<lparr>sales_volume := s\<rparr>))
              \<le> snd (calculate_popularity_score (p\<lparr>sales_volume := s'\<rparr>))"
    if "s \<le> s'" for s s'
    using that by (simp add: calculate_popularity_score_def popularity_value_def min_def)
  have rate: "snd (calculate_popularity_score (p\<lparr>rating := r\<rparr>))
              \<le> snd (calculate_popularity_score (p\<lparr>rating := r'\<rparr>))"
    if "r \<le> r'" for r r'
    using that by (simp add: calculate_popularity_score_def popularity_value_def)
  have revs: "snd (calculate_popularity_score (p\<lparr>reviews_count := c\<rparr>))
              \<le> snd (calculate_popularity_score (p\<lparr>reviews_count := c'\<rparr>))"
    if "c \<le> c'" for c c'
    using that by (simp add: calculate_popularity_score_def popularity_value_def min_def)
  from lo hi sales rate revs show ?thesis by blast
qed

theorem popularity_score_range_monotone_witness:
  "(0 \<le> rating prod_b \<and> rating prod_b \<le> 5 \<and> 0 \<le> sales_volume prod_b
      \<and> 0 \<le> reviews_count prod_b)
   \<and> snd (calculate_popularity_score prod_b) = 100
   \<and> snd (calculate_popularity_score (prod_b\<lparr>sales_volume := 200\<rparr>))
       \<le> snd (calculate_popularity_score (prod_b\<lparr>sales_volume := 700\<rparr>))"
proof -
  have h: "0 \<le> rating prod_b" "rating prod_b \<le> 5" "0 \<le> sales_volume prod_b"
    "0 \<le> reviews_count prod_b"
    by (simp_all add: prod_b_def)
  have "snd (calculate_popularity_score prod_b) = 100"
    by (simp add: calculate_popularity_score_def popularity_value_def prod_b_def)
  with h popularity_score_range_monotone [OF h] show ?thesis by simp
qed

subsection \<open>Time range\<close>

text \<open>
  C10. The hot ranking does not depend on its \<open>time_range\<close> argument: any two tokens,
  supported or not, give the same result.
\<close>

theorem hot_products_ignores_time_range:
  "get_hot_products db pf cf t1 limit = get_hot_products db pf cf t2 limit"
  by (simp add: get_hot_products_def)

subsection \<open>Rising ranking\<close>






















subsection \<open>Value ranking\<close>







subsection \<open>Price tier\<close>

lemma price_tier_not_unknown: "price_tier p r \<noteq> ''Unknown''"
  by (simp add: price_tier_def Let_def)

lemma ln_three_halves: "0 < ln (3 / 2 :: real) \<and> ln (3 / 2 :: real) \<le> 1 / 2"
proof -
  have "ln (3 / 2 :: real) \<le> 3 / 2 - 1" by (rule ln_le_minus_one) simp
  moreover have "0 < ln (3 / 2 :: real)" by (rule ln_gt_zero) simp
  ultimately show ?thesis by simp
qed

text \<open>
  C5, as the code has it. The classifier returns "Unknown" exactly when the price or the
  rating is missing or zero. For a positive price and a rating that is not zero, with
  \<open>ratio = rating / (ln (1 + price) + 1)\<close>, it returns "Good Value" exactly when
  \<open>ratio > 1\<close>, "Fair Value" exactly when \<open>0.5 < ratio \<le> 1\<close>, and "Expensive"
  exactly when \<open>ratio \<le> 0.5\<close>.
\<close>

theorem price_rating_thresholds:
  "(calculate_price_rating d = ''Unknown'') =
      (dict_price d = None \<or> dict_rating d = None \<or> dict_price d = Some 0 \<or> dict_rating d = Some 0)
   \<and> (dict_price d = Some p \<and> dict_rating d = Some r \<and> 0 < p \<and> r \<noteq> 0 \<longrightarrow>
        (calculate_price_rating d = ''Good Value'') = (1 < r / (ln (1 + p) + 1))
      \<and> (calculate_price_rating d = ''Fair Value'')
           = (1 / 2 < r / (ln (1 + p) + 1) \<and> r / (ln (1 + p) + 1) \<le> 1)
      \<and> (calculate_price_rating d = ''Expensive'') = (r / (ln (1 + p) + 1) \<le> 1 / 2))"
proof -
  have unknown: "(calculate_price_rating d = ''Unknown'') =
      (dict_price d = None \<or> dict_rating d = None \<or> dict_price d = Some 0 \<or> dict_rating d = Some 0)"
    by (cases "dict_price d"; cases "dict_rating d")
       (auto simp: calculate_price_rating_def price_tier_not_unknown)
  have tiers: "(calculate_price_rating d = ''Good Value'') = (1 < r / (ln (1 + p) + 1))
      \<and> (calculate_price_rating d = ''Fair Value'')
           = (1 / 2 < r / (ln (1 + p) + 1) \<and> r / (ln (1 + p) + 1) \<le> 1)
      \<and> (calculate_price_rating d = ''Expensive'') = (r / (ln (1 + p) + 1) \<le> 1 / 2)"
    if h: "dict_price d = Some p \<and> dict_rating d = Some r \<and> 0 < p \<and> r \<noteq> 0"
  proof -
    from h have "0 < ln (1 + p)" by (simp add: ln_gt_zero)
    then have pos: "ln (1 + p) + 1 \<noteq> 0" by linarith
    from h have np: "\<not> 1 + p \<le> 0" by linarith
    from h have eq: "calculate_price_rating d = price_tier p r"
      by (simp add: calculate_price_rating_def)
    define x where "x = r / (ln (1 + p) + 1)"
    have tier: "price_tier p r =
        (if 1 < x then ''Good Value'' else if 1 / 2 < x then ''Fair Value'' else ''Expensive'')"
      using pos np by (simp add: price_tier_def Let_def x_def)
    have "(price_tier p r = ''Good Value'') = (1 < x)
      \<and> (price_tier p r = ''Fair Value'') = (1 / 2 < x \<and> x \<le> 1)
      \<and> (price_tier p r = ''Expensive'') = (x \<le> 1 / 2)"
      unfolding tier by auto
    then show ?thesis unfolding eq x_def .
  qed
  from unknown tiers show ?thesis by blast
qed

theorem price_rating_thresholds_witness:
  "dict_price \<lparr>dict_price = Some (1 / 2), dict_rating = Some 1\<rparr> = Some (1 / 2)
   \<and> dict_rating \<lparr>dict_price = Some (1 / 2), dict_rating = Some 1\<rparr> = Some 1
   \<and> (0::real) < 1 / 2 \<and> (1::real) \<noteq> 0
   \<and> (calculate_price_rating \<lparr>dict_price = Some (1 / 2), dict_rating = Some 1\<rparr> = ''Fair Value'')
       = ((1::real) / 2 < 1 / (ln (1 + 1 / 2) + 1) \<and> (1::real) / (ln (1 + 1 / 2) + 1) \<le> 1)"
  using price_rating_thresholds
    [of "\<lparr>dict_price = Some (1 / 2), dict_rating = Some 1\<rparr>" "1 / 2" 1]
  by simp

text \<open>
  C5 as stated fails: for price 0.5 and rating 1 the value score
  \<open>rating / ln (1 + price)\<close> is above 1, and the classifier answers "Fair Value".
\<close>

theorem price_rating_not_value_score:
  "calculate_price_rating \<lparr>dict_price = Some (1 / 2), dict_rating = Some 1\<rparr> = ''Fair Value''
   \<and> 1 < (1::real) / ln (1 + 1 / 2)"
proof -
  define l where "l = ln (3 / 2 :: real)"
  have l: "0 < l" "l \<le> 1 / 2"
    using ln_three_halves by (simp_all add: l_def)
  then have a: "1 < 1 / l" by (simp add: field_simps)
  from l have b: "\<not> 1 < 1 / (l + 1)" by (simp add: field_simps)
  from l have c: "1 / 2 < 1 / (l + 1)" by (simp add: field_simps)
  from l have d: "l + 1 \<noteq> 0" by linarith
  have "price_tier (1 / 2) 1 = ''Fair Value''"
    unfolding price_tier_def Let_def using b c d
    by (simp add: l_def)
  then have "calculate_price_rating \<lparr>dict_price = Some (1 / 2), dict_rating = Some 1\<rparr>
      = ''Fair Value''"
    by (simp add: calculate_price_rating_def)
  with a show ?thesis by (simp add: l_def)
qed

subsection \<open>Unavailable data\<close>

lemma hot_unavailable:
  assumes "session_ok db" and "\<not> products_ok db \<or> products db = []"
  shows "get_hot_products db pf cf t limit = Inr []"
  using assms
  by (auto simp: get_hot_products_def with_session_def query_products_def add_rank_def
      sort_desc_def enumerate_eq_zip)

lemma collect_empty:
  assumes "\<And>k. f k = Inr []"
  shows "collect name f ks result = Inr result"
  by (induction ks) (simp_all add: assms)

lemma rising_unavailable:
  assumes "session_ok db" and "\<not> products_ok db \<or> products db = []"
  shows "get_rising_products round2 db pf cf days limit now = Inr []"
  using assms
  by (auto simp: get_rising_products_def with_session_def query_products_def Let_def)

lemma category_unavailable:
  assumes "session_ok db" and "\<not> products_ok db \<or> products db = []"
  shows "get_category_rankings db pf n = Inr Map.empty"
  using assms
  by (auto simp: get_category_rankings_def with_session_def query_products_def
      distinct_categories_def)

lemma range_unavailable:
  assumes "session_ok db" and "\<not> products_ok db \<or> products db = []"
  shows "get_price_range_rankings db pf ranges n = Inr Map.empty"
proof (cases "products_ok db")
  case True
  with assms have "\<And>r. range_products db pf n r = Inr []"
    by (simp add: range_products_def query_products_def add_rank_def sort_desc_def
        enumerate_eq_zip)
  then have "\<And>rs. collect range_label (range_products db pf n) rs Map.empty = Inr Map.empty"
    by (rule collect_empty)
  with assms show ?thesis
    by (simp add: get_price_range_rankings_def with_session_def Let_def)
next
  case False
  have alt: "collect range_label (range_products db pf n) rs Map.empty = Inr Map.empty
      \<or> (\<exists>e. collect range_label (range_products db pf n) rs Map.empty = Inl e)" for rs
    using False by (cases rs) (simp_all add: range_products_def query_products_def)
  have "with_session db Map.empty (collect range_label (range_products db pf n) rs Map.empty)
      = Inr Map.empty" for rs
    using alt [of rs] assms(1) by (auto simp: with_session_def)
  then show ?thesis
    by (simp add: get_price_range_rankings_def Let_def)
qed

lemma cross_unavailable:
  assumes "session_ok db" and "\<not> products_ok db \<or> products db = []"
  shows "get_cross_platform_comparison db cf limit = Inr Map.empty"
proof -
  have "\<And>pl. get_hot_products db (Some pl) cf ''week'' limit = Inr []"
    using assms by (rule hot_unavailable)
  then have "collect id (\<lambda>pl. get_hot_products db (Some pl) cf ''week'' limit)
          [''tiktok'', ''amazon'', ''shopee''] Map.empty = Inr Map.empty"
    by (rule collect_empty)
  then show ?thesis by (simp add: get_cross_platform_comparison_def catching_def)
qed

lemma attributes_unavailable:
  assumes "session_ok db" and "\<not> products_ok db \<or> products db = []"
  shows "get_popular_attributes db pf cf limit = Inr None"
  using hot_unavailable [OF assms, of pf cf "''week''" 50]
  by (simp add: get_popular_attributes_def catching_def)

lemma value_unavailable:
  assumes "session_ok db" and "\<not> products_ok db \<or> products db = []"
  shows "get_price_performance_ranking db pf cf limit = Inr []"
  using assms
  by (auto simp: get_price_performance_ranking_def with_session_def query_products_def Let_def)

text \<open>
  Outside C6: when \<open>Session()\<close> itself raises, the methods that open a session raise
  UnboundLocalError from their \<open>finally\<close> clause; the two methods without a session
  catch it.
\<close>

lemma session_failure_raises:
  assumes "\<not> session_ok db"
  shows "get_hot_products db pf cf t limit = Inl UnboundLocalError"
    and "get_rising_products round2 db pf cf days limit now = Inl UnboundLocalError"
    and "get_category_rankings db pf n = Inl UnboundLocalError"
    and "get_price_range_rankings db pf ranges n = Inl UnboundLocalError"
    and "get_price_performance_ranking db pf cf limit = Inl UnboundLocalError"
    and "get_cross_platform_comparison db cf limit = Inr Map.empty"
    and "get_popular_attributes db pf cf limit = Inr None"
  using assms
  by (simp_all add: get_hot_products_def get_rising_products_def get_category_rankings_def
      get_price_range_rankings_def get_price_performance_ranking_def
      get_cross_platform_comparison_def get_popular_attributes_def
      with_session_def catching_def Let_def)

text \<open>
  C6. Once a session is open, whenever the query on the products table raises or returns
  no row, each of the seven ranking operations (hot, rising, category, price-range,
  cross-platform, popular-attributes, value) returns its empty list or empty dictionary
  and raises nothing.
\<close>

theorem ranking_operations_degrade_to_empty:
  assumes "session_ok db" and "\<not> products_ok db \<or> products db = []"
  shows "get_hot_products db pf cf t limit = Inr []
       \<and> get_rising_products round2 db pf cf days limit now = Inr []
       \<and> get_category_rankings db pf limit = Inr Map.empty
       \<and> get_price_range_rankings db pf ranges limit = Inr Map.empty
       \<and> get_cross_platform_comparison db cf limit = Inr Map.empty
       \<and> get_popular_attributes db pf cf limit = Inr None
       \<and> get_price_performance_ranking db pf cf limit = Inr []"
  using hot_unavailable [OF assms] rising_unavailable [OF assms] category_unavailable [OF assms]
    range_unavailable [OF assms] cross_unavailable [OF assms] attributes_unavailable [OF assms]
    value_unavailable [OF assms]
  by simp

theorem ranking_operations_degrade_to_empty_witness:
  "session_ok failing_store \<and> \<not> products_ok failing_store
   \<and> products failing_store = [prod_a, prod_b]
   \<and> get_hot_products failing_store None None ''week'' 20 = Inr []
   \<and> get_rising_products py_round2 failing_store None None 7 20 1000000 = Inr []
   \<and> get_category_rankings failing_store None 20 = Inr Map.empty
   \<and> get_price_range_rankings failing_store None None 20 = Inr Map.empty
   \<and> get_cross_platform_comparison failing_store None 20 = Inr Map.empty
   \<and> get_popular_attributes failing_store None None 20 = Inr None
   \<and> get_price_performance_ranking failing_store None None 20 = Inr []"
proof -
  have h: "session_ok failing_store" "\<not> products_ok failing_store \<or> products failing_store = []"
    by (simp_all add: failing_store_def)
  have "\<not> products_ok failing_store \<and> products failing_store = [prod_a, prod_b]"
    by (simp add: failing_store_def)
  with h ranking_operations_degrade_to_empty [OF h] show ?thesis by simp
qed

subsection \<open>Frames\<close>










lemma keyed_days: "fst ` set (keyed key val rows) \<subseteq> (\<lambda>h. day_of (h_date h)) ` set rows"
  by (auto simp: keyed_def split: option.splits)

lemma length_ffill_from: "length (ffill_from prev vs) = length vs"
  by (induction prev vs rule: ffill_from.induct) simp_all









subsection \<open>Trend fill\<close>

lemma gap_range: "date_range 259200 2 = [1, 2, 3]"
  by (simp add: date_range_def day_of_def upto.simps)

lemma gap_days: "day_of 86500 = 1" "day_of 86600 = 1" "day_of 172900 = 2"
  by (simp_all add: day_of_def)

lemma gap_rows:
  "filter (history_filter 86400 None None) (history_rows gap_store) = history_rows gap_store"
  by (simp add: gap_store_def history_filter_def snap_def)


lemma gap_price_pivot:
  "price_pivot None None (history_rows gap_store)
     = \<lparr>frame_index = [1, 2],
        frame_columns = [(''amazon'', [Some 10, Some 12]), (''shopee'', [Some 22, Some 0])]\<rparr>"
  by (simp add: price_pivot_def keyed_def gap_store_def snap_def gap_days pivot_def
      group_cell_def group_values_def agg_mean_def fillna0_def fill_zero_def Let_def)

lemma gap_price_frame:
  "price_frame [1, 2, 3]
      \<lparr>frame_index = [1, 2],
        frame_columns = [(''amazon'', [Some 10, Some 12]), (''shopee'', [Some 22, Some 0])]\<rparr>
   = \<lparr>frame_index = [1, 2, 3],
      frame_columns = [(''amazon'', [Some 10, Some 12, Some 12]),
                       (''shopee'', [Some 22, Some 0, Some 0]),
                       (''average_price'', [Some 16, Some 6, Some 6])]\<rparr>"
  by (simp add: price_frame_def ffill_def reindex_def lookup_cell_def set_column_def
      row_mean_def row_values_def agg_mean_def upt_rec Let_def)

lemma gap_price_any:
  assumes "\<And>fr. plot_lines plt fr"
  shows "analyze_price_trend plt gap_store None None 2 259200 =
     Inr (Some \<lparr>price_trend_data =
                  \<lparr>frame_index = [1, 2, 3],
                     frame_columns = [(''amazon'', [Some 10, Some 12, Some 12]),
                                      (''shopee'', [Some 22, Some 0, Some 0]),
                                      (''average_price'', [Some 16, Some 6, Some 6])]\<rparr>,
                price_change_rate = Some (- 125 / 2)\<rparr>)"
proof -
  have ok: "session_ok gap_store" "history_ok gap_store" by (simp_all add: gap_store_def)
  show ?thesis
    unfolding analyze_price_trend_def with_session_def query_history_def Let_def
    by (simp add: ok gap_rows gap_price_pivot gap_range gap_price_frame
        column_def change_between_def assms)
qed


lemma gap_sales_pivot:
  "sales_pivot None None (history_rows gap_store)
     = \<lparr>frame_index = [1, 2],
        frame_columns = [(''amazon'', [Some 5, Some 6]), (''shopee'', [Some 7, Some 0])]\<rparr>"
  by (simp add: sales_pivot_def keyed_def gap_store_def snap_def gap_days pivot_def
      group_cell_def group_values_def agg_sum_def sales_value_def fillna0_def fill_zero_def
      Let_def)

lemma gap_sales_frame:
  "sales_frame [1, 2, 3]
      \<lparr>frame_index = [1, 2],
        frame_columns = [(''amazon'', [Some 5, Some 6]), (''shopee'', [Some 7, Some 0])]\<rparr>
   = \<lparr>frame_index = [1, 2, 3],
      frame_columns = [(''amazon'', [Some 5, Some 6, Some 0]),
                       (''shopee'', [Some 7, Some 0, Some 0]),
                       (''total'', [Some 12, Some 6, Some 0])]\<rparr>"
  by (simp add: sales_frame_def fillna0_def fill_zero_def reindex_def lookup_cell_def
      set_column_def row_sum_def row_values_def agg_sum_def upt_rec Let_def)

lemma gap_sales_any:
  assumes "\<And>fr. plot_lines plt fr"
  shows "analyze_sales_trend plt gap_store None None 2 259200 =
     Inr (Some \<lparr>sales_trend_data =
                  \<lparr>frame_index = [1, 2, 3],
                     frame_columns = [(''amazon'', [Some 5, Some 6, Some 0]),
                                      (''shopee'', [Some 7, Some 0, Some 0]),
                                      (''total'', [Some 12, Some 6, Some 0])]\<rparr>,
                sales_growth_rate = - 100\<rparr>)"
proof -
  have ok: "session_ok gap_store" "history_ok gap_store" by (simp_all add: gap_store_def)
  show ?thesis
    unfolding analyze_sales_trend_def with_session_def query_history_def Let_def
    by (simp add: ok gap_rows gap_sales_pivot gap_range gap_sales_frame
        column_def growth_between_def value_or_zero_def assms)
qed









subsection \<open>Category trend\<close>

















subsection \<open>Trend summary\<close>

lemma with_session_result:
  "with_session db fallback body = Inr v \<Longrightarrow> session_ok db"
  by (simp add: with_session_def split: if_splits)

lemma with_session_returns:
  "session_ok db \<Longrightarrow> \<exists>v. with_session db fallback body = Inr v"
  by (cases body) (simp_all add: with_session_def)

lemma gap_category_no_pie:
  "analyze_category_trend no_pie gap_store None 2 259200 = Inr None"
proof -
  have ok: "session_ok gap_store" "history_ok gap_store" by (simp_all add: gap_store_def)
  show ?thesis
    unfolding analyze_category_trend_def with_session_def query_history_def Let_def
    by (simp add: ok no_pie_def split: sum.splits)
qed

lemma lines_drawn: "plot_lines no_pie fr" "plot_lines drawing fr"
  by (simp_all add: no_pie_def drawing_def)

text \<open>
  C9. Whenever one of the three analyses returns the empty dictionary, all three return,
  and the summary returns the error message together with the three results as they
  are; it raises nothing.
\<close>

theorem trend_summary_degrades:
  assumes "analyze_sales_trend plt db pf None days now = Inr None
         \<or> analyze_category_trend plt db pf days now = Inr None
         \<or> analyze_price_trend plt db pf None days now = Inr None"
  shows "\<exists>s c p. analyze_sales_trend plt db pf None days now = Inr s
         \<and> analyze_category_trend plt db pf days now = Inr c
         \<and> analyze_price_trend plt db pf None days now = Inr p
         \<and> (s = None \<or> c = None \<or> p = None)
         \<and> get_trend_summary plt db pf days now
              = Inr (Failed ''Failed to generate trend summary'' s c p)"
proof -
  from assms have ok: "session_ok db"
    unfolding analyze_sales_trend_def analyze_category_trend_def analyze_price_trend_def
    by (auto dest: with_session_result)
  have "\<exists>s. analyze_sales_trend plt db pf None days now = Inr s"
    unfolding analyze_sales_trend_def by (rule with_session_returns [OF ok])
  then obtain s where s: "analyze_sales_trend plt db pf None days now = Inr s" ..
  have "\<exists>c. analyze_category_trend plt db pf days now = Inr c"
    unfolding analyze_category_trend_def by (rule with_session_returns [OF ok])
  then obtain c where c: "analyze_category_trend plt db pf days now = Inr c" ..
  have "\<exists>p. analyze_price_trend plt db pf None days now = Inr p"
    unfolding analyze_price_trend_def by (rule with_session_returns [OF ok])
  then obtain p where p: "analyze_price_trend plt db pf None days now = Inr p" ..
  from assms s c p have none: "s = None \<or> c = None \<or> p = None" by simp
  then have "get_trend_summary plt db pf days now
      = Inr (Failed ''Failed to generate trend summary'' s c p)"
    by (cases s; cases c; cases p) (simp_all add: get_trend_summary_def s c p)
  with s c p none show ?thesis by blast
qed

theorem trend_summary_degrades_witness:
  "analyze_category_trend no_pie gap_store None 2 259200 = Inr None
   \<and> get_trend_summary no_pie gap_store None 2 259200
       = Inr (Failed ''Failed to generate trend summary''
           (Some \<lparr>sales_trend_data =
                  \<lparr>frame_index = [1, 2, 3],
                     frame_columns = [(''amazon'', [Some 5, Some 6, Some 0]),
                                      (''shopee'', [Some 7, Some 0, Some 0]),
                                      (''total'', [Some 12, Some 6, Some 0])]\<rparr>,
                sales_growth_rate = - 100\<rparr>)
           None
           (Some \<lparr>price_trend_data =
                  \<lparr>frame_index = [1, 2, 3],
                     frame_columns = [(''amazon'', [Some 10, Some 12, Some 12]),
                                      (''shopee'', [Some 22, Some 0, Some 0]),
                                      (''average_price'', [Some 16, Some 6, Some 6])]\<rparr>,
                price_change_rate = Some (- 125 / 2)\<rparr>))"
proof -
  have h: "analyze_sales_trend no_pie gap_store None None 2 259200 = Inr None
         \<or> analyze_category_trend no_pie gap_store None 2 259200 = Inr None
         \<or> analyze_price_trend no_pie gap_store None None 2 259200 = Inr None"
    by (simp add: gap_category_no_pie)
  from trend_summary_degrades [OF h] show ?thesis
    by (simp add: gap_category_no_pie gap_sales_any [OF lines_drawn(1)]
        gap_price_any [OF lines_drawn(1)])
qed

end
